theory Spec2Isabelle
  imports Complex_Main "HOL-Library.AList" "HOL-Library.Multiset" "HOL-Library.Log_Nat"
begin

section \<open>Offline/model.py: the offline training pipeline of the speller\<close>

text \<open>
  The module defines three classes: \<open>FeatExtractor\<close> (an FIR filter stage),
  \<open>ChannelScaler\<close> (per-channel or per-dimension standardisation) and \<open>Model\<close>
  (the wrapper around the scikit-learn pipeline, with channel selection and persistence).
  Every method is embedded as a HOL function; an exception is a value of the type
  \<open>error\<close>, and the objects that Python shares by reference live in explicit stores.
\<close>

subsection \<open>Exceptions\<close>

datatype error =
    AssertionError
  | KeyError string
  | TypeError
  | ValueError
  | AttributeError
  | ZeroDivisionError
  | OverflowError
  | UFuncTypeError
  | UnpicklingError
  | FileNotFoundError string

subsection \<open>Strings\<close>

text \<open>
  \<open>str.lower()\<close>. A \<open>char\<close> is a byte; the ASCII capitals are the only bytes that
  change. A code point beyond ASCII is a sequence of bytes above 127 in UTF-8, and its
  lower-case form is again such a sequence, except for U+212A (to \<open>k\<close>) and U+0130
  (to \<open>i\<close> followed by a combining dot); neither can turn a string into \<open>channel\<close>,
  \<open>dim\<close>, \<open>train\<close> or \<open>test\<close>, the only strings that lowered strings are
  compared with here.
\<close>

definition is_upper :: "char \<Rightarrow> bool" where
  "is_upper c \<longleftrightarrow> 65 \<le> (of_char c :: nat) \<and> (of_char c :: nat) \<le> 90"

definition lower_char :: "char \<Rightarrow> char" where
  "lower_char c = (if is_upper c then char_of ((of_char c :: nat) + 32) else c)"

definition py_lower :: "string \<Rightarrow> string" where
  "py_lower s = map lower_char s"

text \<open>
  Two strings differ only in case when they have the same length and, position by
  position, hold the same byte or an ASCII capital and its small letter.
\<close>

definition same_letter :: "char \<Rightarrow> char \<Rightarrow> bool" where
  "same_letter c d \<longleftrightarrow>
     c = d \<or> (is_upper c \<and> (of_char d :: nat) = of_char c + 32)
           \<or> (is_upper d \<and> (of_char c :: nat) = of_char d + 32)"

definition differ_only_in_case :: "string \<Rightarrow> string \<Rightarrow> bool" where
  "differ_only_in_case s t \<longleftrightarrow> list_all2 same_letter s t"

subsection \<open>ChannelScaler: construction\<close>

type_synonym addr = nat

datatype norm_axes = Axes02 | Axis0

text \<open>
  The fields \<open>channel_mean\<close> and \<open>channel_std\<close> (in the source with a trailing
  underscore) hold \<open>None\<close> or a reference to an
  array; \<open>norm_axis\<close> is assigned in one of two branches only, so it may be unset.
\<close>

record ChannelScaler =
  channel_mean :: "addr option"
  channel_std :: "addr option"
  norm_method :: string
  norm_axis :: "norm_axes option"

definition ChannelScaler_init :: "string \<Rightarrow> error + ChannelScaler" where
  "ChannelScaler_init norm_method_arg =
     (let nm = py_lower norm_method_arg in
      if nm \<notin> set [''channel'', ''dim'']
      then Inl (KeyError ''Unsupported normalization method'')
      else Inr \<lparr> channel_mean = None, channel_std = None, norm_method = nm,
                 norm_axis = (if nm = ''channel'' then Some Axes02
                              else if nm = ''dim'' then Some Axis0 else None) \<rparr>)"

subsection \<open>Results that may be exceptions\<close>

definition then_do :: "error + 'a \<Rightarrow> ('a \<Rightarrow> error + 'b) \<Rightarrow> error + 'b" where
  "then_do r f = (case r of Inl e \<Rightarrow> Inl e | Inr v \<Rightarrow> f v)"

subsection \<open>Integers divided as floats\<close>

text \<open>
  \<open>int(a / b)\<close> on integers. Python divides two integers into the double nearest to the
  exact quotient (ties to the even mantissa; \<open>OverflowError\<close> when that double would be
  infinite) and \<open>int\<close> drops its fraction. Below \<open>2^53\<close> in the dividend the nearest
  double lies on the same side of every integer as the quotient does, so the result is
  the quotient truncated toward zero.
\<close>

definition trunc_quot :: "int \<Rightarrow> int \<Rightarrow> int" where
  "trunc_quot a b = sgn a * sgn b * (\<bar>a\<bar> div \<bar>b\<bar>)"

definition round_half_even :: "rat \<Rightarrow> int" where
  "round_half_even m =
     (let f = \<lfloor>m\<rfloor>; r = m - of_int f
      in if r < 1 / 2 then f else if 1 / 2 < r then f + 1
         else if even f then f else f + 1)"

text \<open>
  The binary exponent of \<open>p / q\<close> for positive \<open>p\<close> and \<open>q\<close>, from the bit lengths of
  both, and the double nearest to \<open>p / q\<close>: 53 bits of mantissa at that exponent, the
  exponent not below \<open>-1022\<close>.
\<close>

definition quot_exponent :: "int \<Rightarrow> int \<Rightarrow> int" where
  "quot_exponent p q =
     (let d = bitlen p - bitlen q
      in if (2 :: rat) powi d \<le> of_int p / of_int q then d else d - 1)"

definition double_of_quot :: "int \<Rightarrow> int \<Rightarrow> rat" where
  "double_of_quot p q =
     (let e = max (quot_exponent p q) (- 1022);
          ulp = (2 :: rat) powi (e - 52)
      in of_int (round_half_even (of_int p / of_int q / ulp)) * ulp)"

definition int_truediv :: "int \<Rightarrow> int \<Rightarrow> error + int" where
  "int_truediv a b =
     (if b = 0 then Inl ZeroDivisionError
      else if \<bar>a\<bar> < 2 ^ 53 then Inr (trunc_quot a b)
      else (let v = double_of_quot \<bar>a\<bar> \<bar>b\<bar>
            in if 2 ^ 1024 \<le> v then Inl OverflowError
               else Inr (sgn a * sgn b * \<lfloor>v\<rfloor>)))"

subsection \<open>FeatExtractor\<close>

text \<open>
  \<open>scipy.signal.firwin\<close> and \<open>scipy.signal.filtfilt\<close> are library routines outside
  this repository; the constructor and the call pass arguments to them and keep their
  results, so they are parameters of the model: \<open>firwin numtaps cutoff fs pass_zero\<close>
  returns the taps or raises, \<open>filtfilt b a data\<close> (always called with \<open>axis=-1\<close>)
  returns the filtered array or raises.
\<close>

type_synonym firwin_fn = "int \<Rightarrow> real list \<Rightarrow> int \<Rightarrow> bool \<Rightarrow> error + real list"

record FeatExtractor =
  priv_band_erp :: "real list"
  sfreq :: int
  filter_erp :: "real list \<times> real"

text \<open>
  \<open>band_erp\<close> is \<open>None\<close> or the list of band edges (\<open>np.array(band_erp).size\<close> is
  its length; a bare number is the list of one value). After the assertion the second
  test \<open>band_erp is not None\<close> always succeeds, the value being an array by then.
\<close>

definition FeatExtractor_init ::
  "firwin_fn \<Rightarrow> int \<Rightarrow> real list option \<Rightarrow> int option \<Rightarrow> error + FeatExtractor" where
  "FeatExtractor_init firwin sfreq_arg band_erp n_arg =
     (case band_erp of
        None \<Rightarrow> Inl AssertionError
      | Some band \<Rightarrow>
          then_do (case n_arg of None \<Rightarrow> int_truediv sfreq_arg 5 | Some k \<Rightarrow> Inr k) (\<lambda>n.
          then_do (if length band = 1 then firwin (n + 1) band sfreq_arg True
                   else firwin (n + 1) band sfreq_arg False) (\<lambda>b_erp.
          Inr \<lparr> priv_band_erp = band, sfreq = sfreq_arg, filter_erp = (b_erp, 1) \<rparr>)))"

definition FeatExtractor_call ::
  "(real list \<Rightarrow> real \<Rightarrow> 'arr \<Rightarrow> error + 'arr) \<Rightarrow> FeatExtractor \<Rightarrow> 'arr \<Rightarrow> error + 'arr" where
  "FeatExtractor_call filtfilt self data =
     filtfilt (fst (filter_erp self)) (snd (filter_erp self)) data"

subsection \<open>Arrays\<close>

text \<open>
  A three-dimensional array (epochs, channels, times): its element type, its shape and
  its entry at every index below the shape. Two element types are told apart, the
  floating-point one and the integer one, because NumPy refuses to write a
  floating-point result into an integer array.

  The entries are values of a type \<open>'a\<close> that is left open, and NumPy's arithmetic on
  them (IEEE-754 doubles with rounding, overflow, infinities and not-a-number) is not
  modelled: the operations that the class uses are parameters. \<open>np_subtract\<close> and
  \<open>np_true_divide\<close> combine two entries; \<open>np_mean_of\<close> and \<open>np_std_of\<close> reduce the
  values along the reduced axes to one floating-point entry.
\<close>

datatype np_dtype = Float64 | Int64

record 'a ndarray =
  dtype :: np_dtype
  dims :: "nat \<times> nat \<times> nat"
  elems :: "nat \<Rightarrow> nat \<Rightarrow> nat \<Rightarrow> 'a"

definition dim0 :: "'a ndarray \<Rightarrow> nat" where
  "dim0 X = fst (dims X)"

definition dim1 :: "'a ndarray \<Rightarrow> nat" where
  "dim1 X = fst (snd (dims X))"

definition dim2 :: "'a ndarray \<Rightarrow> nat" where
  "dim2 X = snd (snd (dims X))"

record 'a numpy =
  np_subtract :: "'a \<Rightarrow> 'a \<Rightarrow> 'a"
  np_true_divide :: "'a \<Rightarrow> 'a \<Rightarrow> 'a"
  np_mean_of :: "'a list \<Rightarrow> 'a"
  np_std_of :: "'a list \<Rightarrow> 'a"

subsection \<open>NumPy reductions and in-place arithmetic\<close>

text \<open>
  The values that a reduction over the axes \<open>(0, 2)\<close>, or over the axis \<open>0\<close>, combines
  into the entry for channel \<open>c\<close> (and time \<open>t\<close>).
\<close>

definition axis_vals :: "norm_axes \<Rightarrow> 'a ndarray \<Rightarrow> nat \<Rightarrow> nat \<Rightarrow> 'a list" where
  "axis_vals ax X c t =
     (case ax of
        Axes02 \<Rightarrow> concat (map (\<lambda>e. map (\<lambda>t'. elems X e c t') [0..<dim2 X]) [0..<dim0 X])
      | Axis0 \<Rightarrow> map (\<lambda>e. elems X e c t) [0..<dim0 X])"

text \<open>
  \<open>keepdims=True\<close>: a reduced axis stays, with length one. The mean and the standard
  deviation of an array of either element type are floating-point arrays.
\<close>

definition reduced_dims :: "norm_axes \<Rightarrow> 'a ndarray \<Rightarrow> nat \<times> nat \<times> nat" where
  "reduced_dims ax X =
     (case ax of Axes02 \<Rightarrow> (1, dim1 X, 1) | Axis0 \<Rightarrow> (1, dim1 X, dim2 X))"

definition np_mean :: "'a numpy \<Rightarrow> norm_axes \<Rightarrow> 'a ndarray \<Rightarrow> 'a ndarray" where
  "np_mean np ax X =
     \<lparr> dtype = Float64, dims = reduced_dims ax X,
       elems = (\<lambda>e c t. np_mean_of np (axis_vals ax X c t)) \<rparr>"

definition np_std :: "'a numpy \<Rightarrow> norm_axes \<Rightarrow> 'a ndarray \<Rightarrow> 'a ndarray" where
  "np_std np ax X =
     \<lparr> dtype = Float64, dims = reduced_dims ax X,
       elems = (\<lambda>e c t. np_std_of np (axis_vals ax X c t)) \<rparr>"

text \<open>
  Broadcasting into an array that is updated in place: every axis of the operand has
  length one or the length of the target's axis; an axis of length one is read at index 0.
\<close>

definition broadcastable_to :: "nat \<times> nat \<times> nat \<Rightarrow> nat \<times> nat \<times> nat \<Rightarrow> bool" where
  "broadcastable_to m x \<longleftrightarrow>
     (fst m = 1 \<or> fst m = fst x)
     \<and> (fst (snd m) = 1 \<or> fst (snd m) = fst (snd x))
     \<and> (snd (snd m) = 1 \<or> snd (snd m) = snd (snd x))"

definition bidx :: "nat \<Rightarrow> nat \<Rightarrow> nat" where
  "bidx d i = (if d = 1 then 0 else i)"

definition bget :: "'a ndarray \<Rightarrow> nat \<Rightarrow> nat \<Rightarrow> nat \<Rightarrow> 'a" where
  "bget M e c t = elems M (bidx (dim0 M) e) (bidx (dim1 M) c) (bidx (dim2 M) t)"

text \<open>
  \<open>X -= M\<close> and \<open>X /= S\<close>. The element types are checked first: the difference of an
  integer array and a floating-point one is floating-point, and a quotient always is;
  neither can be written into an integer array (\<open>UFuncTypeError\<close>). Then the shapes.
\<close>

definition isub :: "'a numpy \<Rightarrow> 'a ndarray \<Rightarrow> 'a ndarray \<Rightarrow> error + 'a ndarray" where
  "isub np X M =
     (if dtype X = Int64 \<and> dtype M = Float64 then Inl UFuncTypeError
      else if \<not> broadcastable_to (dims M) (dims X) then Inl ValueError
      else Inr (X\<lparr> elems := (\<lambda>e c t. np_subtract np (elems X e c t) (bget M e c t)) \<rparr>))"

definition itruediv :: "'a numpy \<Rightarrow> 'a ndarray \<Rightarrow> 'a ndarray \<Rightarrow> error + 'a ndarray" where
  "itruediv np X S =
     (if dtype X = Int64 then Inl UFuncTypeError
      else if \<not> broadcastable_to (dims S) (dims X) then Inl ValueError
      else Inr (X\<lparr> elems := (\<lambda>e c t. np_true_divide np (elems X e c t) (bget S e c t)) \<rparr>))"

subsection \<open>The store of arrays\<close>

text \<open>
  Python passes arrays by reference. A store is the list of the objects allocated so
  far, a reference is an index into it; a new object is appended. A reference outside
  the store stands for a value that is not an array.
\<close>

definition alloc :: "'a list \<Rightarrow> 'a \<Rightarrow> addr \<times> 'a list" where
  "alloc h v = (length h, h @ [v])"

definition deref :: "'a list \<Rightarrow> addr \<Rightarrow> 'a option" where
  "deref h a = (if a < length h then Some (h ! a) else None)"

subsection \<open>ChannelScaler: fit, transform, fit_transform\<close>

text \<open>
  \<open>fit\<close> stores references to two new arrays in the scaler and returns the scaler.
\<close>

definition ChannelScaler_fit ::
  "'a numpy \<Rightarrow> ChannelScaler \<Rightarrow> 'a ndarray list \<Rightarrow> addr \<Rightarrow>
   (error + ChannelScaler) \<times> 'a ndarray list" where
  "ChannelScaler_fit np self h X =
     (case norm_axis self of
        None \<Rightarrow> (Inl AttributeError, h)
      | Some ax \<Rightarrow>
          (case deref h X of
             None \<Rightarrow> (Inl TypeError, h)
           | Some x \<Rightarrow>
               (let (ma, h1) = alloc h (np_mean np ax x);
                    (sa, h2) = alloc h1 (np_std np ax x)
                in (Inr (self\<lparr> channel_mean := Some ma, channel_std := Some sa \<rparr>), h2))))"

text \<open>
  \<open>transform\<close> rebinds its local name \<open>X\<close> to a copy and updates the copy in place,
  twice. An unfitted scaler holds \<open>None\<close>, which an array cannot subtract.
\<close>

definition inplace_at ::
  "('a ndarray \<Rightarrow> 'a ndarray \<Rightarrow> error + 'a ndarray) \<Rightarrow> 'a ndarray list \<Rightarrow> addr \<Rightarrow>
   addr option \<Rightarrow> error option \<times> 'a ndarray list" where
  "inplace_at f h X M =
     (case M of
        None \<Rightarrow> (Some TypeError, h)
      | Some m \<Rightarrow>
          (case deref h m of
             None \<Rightarrow> (Some TypeError, h)
           | Some mv \<Rightarrow>
               (case f (h ! X) mv of
                  Inl e \<Rightarrow> (Some e, h)
                | Inr x' \<Rightarrow> (None, h[X := x']))))"

definition ChannelScaler_transform ::
  "'a numpy \<Rightarrow> ChannelScaler \<Rightarrow> 'a ndarray list \<Rightarrow> addr \<Rightarrow>
   (error + addr) \<times> 'a ndarray list" where
  "ChannelScaler_transform np self h X =
     (case deref h X of
        None \<Rightarrow> (Inl AttributeError, h)
      | Some x \<Rightarrow>
          (let (X', h1) = alloc h x in
           case inplace_at (isub np) h1 X' (channel_mean self) of
             (Some e, h2) \<Rightarrow> (Inl e, h2)
           | (None, h2) \<Rightarrow>
               (case inplace_at (itruediv np) h2 X' (channel_std self) of
                  (Some e, h3) \<Rightarrow> (Inl e, h3)
                | (None, h3) \<Rightarrow> (Inr X', h3))))"

definition ChannelScaler_fit_transform ::
  "'a numpy \<Rightarrow> ChannelScaler \<Rightarrow> 'a ndarray list \<Rightarrow> addr \<Rightarrow>
   (error + addr) \<times> ChannelScaler \<times> 'a ndarray list" where
  "ChannelScaler_fit_transform np self h X =
     (case ChannelScaler_fit np self h X of
        (Inl e, h1) \<Rightarrow> (Inl e, self, h1)
      | (Inr self1, h1) \<Rightarrow>
          (case ChannelScaler_transform np self1 h1 X of (r, h2) \<Rightarrow> (r, self1, h2)))"

subsection \<open>Model: the coefficient store, the session directory, the pipeline\<close>

text \<open>
  The coefficient store \<open>data_dict\<close> is a Python dictionary in train mode: its values
  are references to index arrays. In test mode it is what \<open>np.load\<close> returns for an
  \<open>.npz\<close> archive: a read-only mapping that holds the archived arrays and hands out a
  new array on every read; it has no item assignment.
\<close>

datatype coef_store =
    Dict "(string \<times> addr) list"
  | NpzFile "(string \<times> int list) list"

text \<open>
  The session directory: which paths are directories, and the files by path. A file is
  a coefficient archive (written by \<open>np.savez\<close>) or the bytes that \<open>joblib.dump\<close>
  wrote for a pipeline.
\<close>

datatype 'b stored_file = Npz "(string \<times> int list) list" | Pkl 'b

record 'b filesystem =
  is_dir :: "string \<Rightarrow> bool"
  files :: "string \<rightharpoonup> 'b stored_file"

text \<open>\<open>os.path.join\<close> on POSIX paths: an absolute component discards what precedes it.\<close>

definition path_join :: "string \<Rightarrow> string \<Rightarrow> string" where
  "path_join a b =
     (if b \<noteq> [] \<and> hd b = CHR ''/'' then b
      else if a = [] \<or> last a = CHR ''/'' then a @ b
      else a @ ''/'' @ b)"

definition write_file ::
  "'b filesystem \<Rightarrow> string \<Rightarrow> string \<Rightarrow> 'b stored_file \<Rightarrow> error + 'b filesystem" where
  "write_file fs dir name f =
     (if is_dir fs dir
      then Inr (fs\<lparr> files := (files fs)(path_join dir name \<mapsto> f) \<rparr>)
      else Inl (FileNotFoundError (path_join dir name)))"

definition np_load :: "'b filesystem \<Rightarrow> string \<Rightarrow> error + coef_store" where
  "np_load fs path =
     (case files fs path of
        None \<Rightarrow> Inl (FileNotFoundError path)
      | Some (Npz kv) \<Rightarrow> Inr (NpzFile kv)
      | Some (Pkl b) \<Rightarrow> Inl ValueError)"

text \<open>
  What lies outside the module: its directory, the configured subject name, the session
  discovery of \<open>utils\<close>, \<open>datetime.strftime\<close>, the scikit-learn pipeline with its
  constructor (from \<open>C\<close> and \<open>n_components\<close>), \<open>fit\<close> and \<open>decision_function\<close>, and
  the serialisation of \<open>joblib\<close>: the bytes it writes for a pipeline, and what it makes
  of bytes that it reads.
\<close>

record ('p, 'b, 'x, 'y, 'l, 'dt) collaborators =
  module_dir :: string
  cfg_subjname :: string
  find_nearest_time :: "'b filesystem \<Rightarrow> string \<Rightarrow> error + string"
  strftime :: "'dt \<Rightarrow> string \<Rightarrow> string"
  make_pipeline :: "real \<Rightarrow> int \<Rightarrow> 'p"
  pipeline_fit :: "'p \<Rightarrow> 'x \<Rightarrow> 'l \<Rightarrow> error + 'p"
  pipeline_decision_function :: "'p \<Rightarrow> 'x \<Rightarrow> error + 'y"
  joblib_dumps :: "'p \<Rightarrow> 'b"
  joblib_loads :: "'b \<Rightarrow> error + 'p"

definition joblib_load ::
  "('p, 'b, 'x, 'y, 'l, 'dt) collaborators \<Rightarrow> 'b filesystem \<Rightarrow> string \<Rightarrow> error + 'p" where
  "joblib_load env fs path =
     (case files fs path of
        None \<Rightarrow> Inl (FileNotFoundError path)
      | Some (Pkl b) \<Rightarrow> joblib_loads env b
      | Some (Npz kv) \<Rightarrow> Inl UnpicklingError)"

datatype 'dt date_arg = DateTime 'dt | DateStr string

record 'p Model =
  priv_subj_path :: string
  priv_date :: string
  mode :: string
  data_dict :: coef_store
  priv_cls :: "'p option"
  priv_ch_ind :: "addr option"

text \<open>
  The fields \<open>_subj_path\<close>, \<open>_date\<close>, \<open>__cls\<close> and \<open>_ch_ind\<close> of the source carry the
  prefix \<open>priv_\<close>. \<open>_ch_ind\<close> is not assigned in train mode: it is unset there.
\<close>

definition session_dir :: "'p Model \<Rightarrow> string" where
  "session_dir self = path_join (priv_subj_path self) (priv_date self)"

text \<open>
  Reading an entry: a dictionary raises \<open>KeyError\<close> with the missing key, an archive
  with a message that names it.
\<close>

definition store_get :: "coef_store \<Rightarrow> int list list \<Rightarrow> string \<Rightarrow> error + int list" where
  "store_get d h k =
     (case d of
        Dict kv \<Rightarrow>
          (case map_of kv k of
             None \<Rightarrow> Inl (KeyError k)
           | Some a \<Rightarrow> (case deref h a of None \<Rightarrow> Inl TypeError | Some v \<Rightarrow> Inr v))
      | NpzFile kv \<Rightarrow>
          (case map_of kv k of
             None \<Rightarrow> Inl (KeyError (k @ '' is not a file in the archive''))
           | Some v \<Rightarrow> Inr v))"

definition Model_init ::
  "('p, 'b, 'x, 'y, 'l, 'dt) collaborators \<Rightarrow> 'b filesystem \<Rightarrow> int list list \<Rightarrow>
   string option \<Rightarrow> 'dt date_arg option \<Rightarrow> string \<Rightarrow> real option \<Rightarrow> int option \<Rightarrow>
   error + ('p Model \<times> int list list)" where
  "Model_init env fs h subject date mode_arg kw_C kw_n_components =
     (let subject' = (case subject of None \<Rightarrow> cfg_subjname env | Some s \<Rightarrow> s);
          subj_path = module_dir env @ ''/../data/'' @ subject'
      in case (case date of
                 None \<Rightarrow> find_nearest_time env fs subj_path
               | Some (DateTime dt) \<Rightarrow> Inr (strftime env dt ''%Y-%m-%d-%H-%M-%S'')
               | Some (DateStr s) \<Rightarrow> Inr s) of
           Inl e \<Rightarrow> Inl e
         | Inr date' \<Rightarrow>
             (let mode' = py_lower mode_arg in
              if mode' \<notin> set [''train'', ''test''] then Inl AssertionError
              else if mode' = ''test'' then
                (case np_load fs (path_join (path_join subj_path date') ''coef.npz'') of
                   Inl e \<Rightarrow> Inl e
                 | Inr dd \<Rightarrow>
                     (case joblib_load env fs
                             (path_join (path_join subj_path date') ''model.pkl'') of
                        Inl e \<Rightarrow> Inl e
                      | Inr p \<Rightarrow>
                          (case store_get dd h ''ind_ch_scores'' of
                             Inl e \<Rightarrow> Inl e
                           | Inr v \<Rightarrow>
                               (let (a, h1) = alloc h v in
                                Inr (\<lparr> priv_subj_path = subj_path, priv_date = date',
                                       mode = mode', data_dict = dd, priv_cls = Some p,
                                       priv_ch_ind = Some a \<rparr>, h1)))))
              else
                (let C = (case kw_C of None \<Rightarrow> 1 | Some c \<Rightarrow> c);
                     n_components = (case kw_n_components of None \<Rightarrow> 3 | Some n \<Rightarrow> n)
                 in Inr (\<lparr> priv_subj_path = subj_path, priv_date = date', mode = mode',
                          data_dict = Dict [],
                          priv_cls = Some (make_pipeline env C n_components),
                          priv_ch_ind = None \<rparr>, h))))"

text \<open>The property \<open>ch_ind\<close>: the getter, and the setter with its three statements.\<close>

definition ch_ind :: "'p Model \<Rightarrow> error + addr" where
  "ch_ind self = (case priv_ch_ind self of None \<Rightarrow> Inl AttributeError | Some a \<Rightarrow> Inr a)"

text \<open>
  An exception leaves the effects of the statements before it: the setter returns the
  error, if any, together with the model and the store as they are then.
\<close>

definition ch_ind_setter ::
  "'p Model \<Rightarrow> int list list \<Rightarrow> addr \<Rightarrow> error option \<times> 'p Model \<times> int list list" where
  "ch_ind_setter self h val =
     (case deref h val of
        None \<Rightarrow> (Some AttributeError, self, h)
      | Some v \<Rightarrow>
          (let h1 = h[val := sort v];
               self1 = self\<lparr> priv_ch_ind := Some val \<rparr>
           in case data_dict self1 of
                Dict kv \<Rightarrow>
                  (None, self1\<lparr> data_dict := Dict (AList.update ''ind_ch_scores'' val kv) \<rparr>, h1)
              | NpzFile kv \<Rightarrow> (Some TypeError, self1, h1)))"

definition Model_fit ::
  "('p, 'b, 'x, 'y, 'l, 'dt) collaborators \<Rightarrow> 'p Model \<Rightarrow> 'x \<Rightarrow> 'l \<Rightarrow> error + 'p Model" where
  "Model_fit env self X y =
     (case priv_cls self of
        None \<Rightarrow> Inl AttributeError
      | Some p \<Rightarrow>
          (case pipeline_fit env p X y of
             Inl e \<Rightarrow> Inl e
           | Inr p' \<Rightarrow> Inr (self\<lparr> priv_cls := Some p' \<rparr>)))"

definition Model_decision_function ::
  "('p, 'b, 'x, 'y, 'l, 'dt) collaborators \<Rightarrow> 'p Model \<Rightarrow> 'x \<Rightarrow> error + 'y" where
  "Model_decision_function env self X =
     (case priv_cls self of
        None \<Rightarrow> Inl AttributeError
      | Some p \<Rightarrow> pipeline_decision_function env p X)"

text \<open>
  \<open>dump\<close>: the archive is written when the coefficient store is not empty, the pipeline
  when there is one. \<open>np.savez\<close> archives the arrays that the store refers to.
\<close>

definition store_items :: "coef_store \<Rightarrow> int list list \<Rightarrow> (string \<times> int list) list" where
  "store_items d h =
     (case d of
        Dict kv \<Rightarrow> map (\<lambda>(k, a). (k, h ! a)) kv
      | NpzFile kv \<Rightarrow> kv)"

definition store_nonempty :: "coef_store \<Rightarrow> bool" where
  "store_nonempty d = (case d of Dict kv \<Rightarrow> kv \<noteq> [] | NpzFile kv \<Rightarrow> kv \<noteq> [])"

definition Model_dump ::
  "('p, 'b, 'x, 'y, 'l, 'dt) collaborators \<Rightarrow> 'p Model \<Rightarrow> int list list \<Rightarrow>
   'b filesystem \<Rightarrow> error option \<times> 'b filesystem" where
  "Model_dump env self h fs =
     (case (if store_nonempty (data_dict self)
            then write_file fs (session_dir self) ''coef.npz''
                   (Npz (store_items (data_dict self) h))
            else Inr fs) of
        Inl e \<Rightarrow> (Some e, fs)
      | Inr fs1 \<Rightarrow>
          (case priv_cls self of
             None \<Rightarrow> (None, fs1)
           | Some p \<Rightarrow>
               (case write_file fs1 (session_dir self) ''model.pkl''
                       (Pkl (joblib_dumps env p)) of
                  Inl e \<Rightarrow> (Some e, fs1)
                | Inr fs2 \<Rightarrow> (None, fs2))))"

subsection \<open>Model.raw2epoch\<close>

text \<open>
  The configuration object \<open>cfg\<close> is read-only input. The four helpers of
  \<open>Offline.utils\<close> and \<open>scipy.signal.detrend\<close> are not part of this module: they are
  parameters, each returning an epoch array or raising.
\<close>

record ('w, 'tw) config =
  subj_type :: string
  off_start :: 'w
  off_end :: 'w
  samplerate :: int
  time_window :: 'tw
  downsamp :: int

record ('raw, 'ts, 'ev, 'w, 'tw, 'a) epoch_helpers =
  cut_epochs :: "'w \<times> 'w \<times> int \<Rightarrow> 'raw \<Rightarrow> 'ts \<Rightarrow> error + 'a ndarray"
  sort_epochs :: "'a ndarray \<Rightarrow> 'ev \<Rightarrow> error + 'a ndarray"
  detrend :: "'a ndarray \<Rightarrow> error + 'a ndarray"
  apply_baseline :: "'w \<times> 'w \<times> int \<Rightarrow> 'a ndarray \<Rightarrow> error + 'a ndarray"
  timewindow :: "'w \<times> 'w \<Rightarrow> 'tw \<Rightarrow> 'a ndarray \<Rightarrow> error + 'a ndarray"

text \<open>
  \<open>epochs[..., ::k]\<close>: every \<open>k\<close>-th sample of the last axis from the first one on, for a
  negative \<open>k\<close> every \<open>|k|\<close>-th sample from the last one back; a zero step is refused.
\<close>

definition slice_last :: "'a ndarray \<Rightarrow> int \<Rightarrow> error + 'a ndarray" where
  "slice_last X k =
     (if k = 0 then Inl ValueError
      else if 0 < k then
        Inr \<lparr> dtype = dtype X, dims = (dim0 X, dim1 X, (dim2 X + nat k - 1) div nat k),
              elems = (\<lambda>e c t. elems X e c (t * nat k)) \<rparr>
      else
        Inr \<lparr> dtype = dtype X,
              dims = (dim0 X, dim1 X, (dim2 X + nat (- k) - 1) div nat (- k)),
              elems = (\<lambda>e c t. elems X e c (dim2 X - 1 - t * nat (- k))) \<rparr>)"

definition raw2epoch ::
  "('raw, 'ts, 'ev, 'w, 'tw, 'a) epoch_helpers \<Rightarrow> ('w, 'tw) config \<Rightarrow>
   'raw \<Rightarrow> 'ts \<Rightarrow> 'ev \<Rightarrow> error + 'a ndarray" where
  "raw2epoch utils cfg raw_data timestamps events =
     then_do
       (if subj_type cfg = ''eeg'' then
          (let t_base = (off_start cfg, off_end cfg, samplerate cfg) in
           then_do (cut_epochs utils t_base raw_data timestamps) (\<lambda>epochs.
           then_do (sort_epochs utils epochs events) (\<lambda>epochs.
           then_do (detrend utils epochs) (\<lambda>epochs.
           then_do (apply_baseline utils t_base epochs) (\<lambda>epochs.
           timewindow utils (fst t_base, fst (snd t_base)) (time_window cfg) epochs)))))
        else Inl (KeyError ''Unsupported recording type.''))
       (\<lambda>epochs.
          then_do (int_truediv (samplerate cfg) (downsamp cfg)) (\<lambda>down_ratio.
          slice_last epochs down_ratio))"

subsection \<open>Notions used in the statements\<close>

text \<open>
  The statistics \<open>M\<close> broadcast to the shape of \<open>X\<close> when every axis of \<open>M\<close> has the
  length of that axis of \<open>X\<close>, or length one; the entry of \<open>M\<close> that then belongs to the
  entry \<open>(e, c, t)\<close> of \<open>X\<close> has the same index along an axis of equal length and the
  index 0 along the others.
\<close>

definition broadcasts_to_shape :: "'a ndarray \<Rightarrow> 'a ndarray \<Rightarrow> bool" where
  "broadcasts_to_shape M X \<longleftrightarrow>
     list_all2 (\<lambda>m x. m = x \<or> m = 1) [dim0 M, dim1 M, dim2 M] [dim0 X, dim1 X, dim2 X]"

definition stat_at :: "'a ndarray \<Rightarrow> 'a ndarray \<Rightarrow> nat \<Rightarrow> nat \<Rightarrow> nat \<Rightarrow> 'a" where
  "stat_at M X e c t =
     elems M (if dim0 M = dim0 X then e else 0) (if dim1 M = dim1 X then c else 0)
       (if dim2 M = dim2 X then t else 0)"

subsection \<open>Concrete instances\<close>

text \<open>
  Stand-ins for the collaborators, on which the functions above can be evaluated: a
  pipeline is a single integer weight, fitting adds to it, the decision function
  multiplies by it, its bytes are the weight after a marker; every path is a directory.
\<close>

definition example_env :: "(int, int list, int, int, int, unit) collaborators" where
  "example_env =
     \<lparr> module_dir = ''/app/Offline'', cfg_subjname = ''s1'',
       find_nearest_time = (\<lambda>fs p. Inr ''d1''),
       strftime = (\<lambda>dt fmt. ''d1''),
       make_pipeline = (\<lambda>C n. n),
       pipeline_fit = (\<lambda>p X y. Inr (p + X * y)),
       pipeline_decision_function = (\<lambda>p X. Inr (p * X)),
       joblib_dumps = (\<lambda>p. [128, p]),
       joblib_loads = (\<lambda>b. case b of [m, p] \<Rightarrow> if m = 128 then Inr p else Inl UnpicklingError
                                     | _ \<Rightarrow> Inl UnpicklingError) \<rparr>"

definition example_fs :: "int list filesystem" where
  "example_fs = \<lparr> is_dir = (\<lambda>d. True), files = Map.empty \<rparr>"

definition example_train_model :: "int Model" where
  "example_train_model =
     \<lparr> priv_subj_path = ''/app/Offline/../data/s1'', priv_date = ''d1'', mode = ''train'',
       data_dict = Dict [], priv_cls = Some 3, priv_ch_ind = None \<rparr>"

definition example_fitted_model :: "int Model" where
  "example_fitted_model =
     \<lparr> priv_subj_path = ''/app/Offline/../data/s1'', priv_date = ''d1'', mode = ''train'',
       data_dict = Dict [(''ind_ch_scores'', 0)], priv_cls = Some 5, priv_ch_ind = Some 0 \<rparr>"

definition example_session_fs :: "int list filesystem" where
  "example_session_fs =
     \<lparr> is_dir = (\<lambda>d. True),
       files = [''/app/Offline/../data/s1/d1/coef.npz'' \<mapsto> Npz [(''ind_ch_scores'', [5])],
                ''/app/Offline/../data/s1/d1/model.pkl'' \<mapsto> Pkl [128, 5]] \<rparr>"

definition example_test_model :: "int Model" where
  "example_test_model =
     \<lparr> priv_subj_path = ''/app/Offline/../data/s1'', priv_date = ''d1'', mode = ''test'',
       data_dict = NpzFile [(''ind_ch_scores'', [5])], priv_cls = Some 5,
       priv_ch_ind = Some 1 \<rparr>"

definition example_firwin :: firwin_fn where
  "example_firwin numtaps cutoff fs pass_zero =
     (if numtaps \<le> 0 then Inl ValueError
      else Inr (replicate (nat numtaps) (if pass_zero then 1 else 0)))"

definition example_helpers ::
  "(unit, unit, unit, real, real \<times> real, real) epoch_helpers" where
  "example_helpers =
     \<lparr> cut_epochs = (\<lambda>t_base raw ts.
         Inr \<lparr> dtype = Float64, dims = (1, 1, 4), elems = (\<lambda>e c t. real t) \<rparr>),
       sort_epochs = (\<lambda>epochs events. Inr epochs),
       detrend = (\<lambda>epochs. Inr epochs),
       apply_baseline = (\<lambda>t_base epochs. Inr epochs),
       timewindow = (\<lambda>w tw epochs. Inr epochs) \<rparr>"

definition example_config :: "string \<Rightarrow> (real, real \<times> real) config" where
  "example_config ty =
     \<lparr> subj_type = ty, off_start = - 0.2, off_end = 1, samplerate = 1000,
       time_window = (0, 0.6), downsamp = 250 \<rparr>"

text \<open>
  Arithmetic for evaluating the scaler on examples: one possible instance of the
  operations, exact on the real numbers. Arrays: two epochs of one channel and two
  samples, statistics per time, a single statistic; arrays of two channels, of one
  channel and of three channels, and an integer array of two channels.
\<close>

definition example_numpy :: "real numpy" where
  "example_numpy =
     \<lparr> np_subtract = (\<lambda>x y. x - y),
       np_true_divide = (\<lambda>x y. x / y),
       np_mean_of = (\<lambda>xs. sum_list xs / real (length xs)),
       np_std_of = (\<lambda>xs. sqrt (sum_list (map (\<lambda>x. (x - sum_list xs / real (length xs)) ^ 2) xs)
                                / real (length xs))) \<rparr>"

definition two_epochs :: "real ndarray" where
  "two_epochs =
     \<lparr> dtype = Float64, dims = (2, 1, 2),
       elems = (\<lambda>e c t. if e = 0 then (if t = 0 then 5 else 9) else (if t = 0 then 2 else 7)) \<rparr>"

definition stats_per_time :: "real ndarray" where
  "stats_per_time =
     \<lparr> dtype = Float64, dims = (1, 1, 2), elems = (\<lambda>e c t. if t = 0 then 1 else 3) \<rparr>"

definition single_stat :: "real ndarray" where
  "single_stat = \<lparr> dtype = Float64, dims = (1, 1, 1), elems = (\<lambda>e c t. 2) \<rparr>"

definition two_channels :: "real ndarray" where
  "two_channels =
     \<lparr> dtype = Float64, dims = (2, 2, 1), elems = (\<lambda>e c t. real (e + 2 * c)) \<rparr>"

definition one_channel :: "real ndarray" where
  "one_channel =
     \<lparr> dtype = Float64, dims = (2, 1, 1), elems = (\<lambda>e c t. real e) \<rparr>"

definition three_channels :: "real ndarray" where
  "three_channels =
     \<lparr> dtype = Float64, dims = (1, 3, 1), elems = (\<lambda>e c t. real c) \<rparr>"

definition integer_epochs :: "real ndarray" where
  "integer_epochs =
     \<lparr> dtype = Int64, dims = (2, 2, 1), elems = (\<lambda>e c t. real (e + 2 * c)) \<rparr>"

definition example_scaler :: "string \<Rightarrow> norm_axes \<Rightarrow> ChannelScaler" where
  "example_scaler nm ax =
     \<lparr> channel_mean = None, channel_std = None, norm_method = nm, norm_axis = Some ax \<rparr>"

definition fitted_scaler :: "addr \<Rightarrow> addr \<Rightarrow> ChannelScaler" where
  "fitted_scaler ma sa =
     \<lparr> channel_mean = Some ma, channel_std = Some sa, norm_method = ''channel'',
       norm_axis = Some Axes02 \<rparr>"

section \<open>Properties\<close>

subsection \<open>Lower-casing\<close>

lemma lower_char_eq_iff:
  assumes "\<not> is_upper d"
  shows "lower_char c = d \<longleftrightarrow> same_letter c d"
proof (cases "is_upper c")
  case True
  then have lt: "(of_char c :: nat) + 32 < 256"
    by (simp add: is_upper_def)
  have "char_of ((of_char c :: nat) + 32) = d \<longleftrightarrow> (of_char d :: nat) = of_char c + 32"
  proof
    assume "char_of ((of_char c :: nat) + 32) = d"
    then have "(of_char d :: nat) = of_char (char_of ((of_char c :: nat) + 32) :: char)"
      by simp
    also have "\<dots> = of_char c + 32"
      using lt by simp
    finally show "(of_char d :: nat) = of_char c + 32" .
  next
    assume "(of_char d :: nat) = of_char c + 32"
    then have "char_of ((of_char c :: nat) + 32) = (char_of (of_char d :: nat) :: char)"
      by simp
    then show "char_of ((of_char c :: nat) + 32) = d"
      by simp
  qed
  moreover have "c \<noteq> d"
    using True assms by auto
  ultimately show ?thesis
    using True assms by (simp add: lower_char_def same_letter_def)
next
  case False
  then show ?thesis
    using assms by (simp add: lower_char_def same_letter_def)
qed

lemma py_lower_eq_iff:
  assumes "\<forall>d \<in> set t. \<not> is_upper d"
  shows "py_lower s = t \<longleftrightarrow> differ_only_in_case s t"
  using assms
proof (induction s arbitrary: t)
  case Nil
  then show ?case by (auto simp: py_lower_def differ_only_in_case_def)
next
  case (Cons c s)
  show ?case
  proof (cases t)
    case Nil
    then show ?thesis by (simp add: py_lower_def differ_only_in_case_def)
  next
    case (Cons d t')
    have "py_lower s = t' \<longleftrightarrow> differ_only_in_case s t'"
      using Cons.IH Cons.prems Cons by simp
    moreover have "lower_char c = d \<longleftrightarrow> same_letter c d"
      using Cons.prems Cons by (simp add: lower_char_eq_iff)
    ultimately show ?thesis
      using Cons by (simp add: py_lower_def differ_only_in_case_def)
  qed
qed

lemma lower_channel: "py_lower s = ''channel'' \<longleftrightarrow> differ_only_in_case s ''channel''"
  by (rule py_lower_eq_iff) (simp add: is_upper_def)

lemma lower_dim: "py_lower s = ''dim'' \<longleftrightarrow> differ_only_in_case s ''dim''"
  by (rule py_lower_eq_iff) (simp add: is_upper_def)

lemma lower_test: "py_lower ''test'' = ''test''"
  by code_simp

lemma lower_train: "py_lower ''train'' = ''train''"
  by code_simp

text \<open>
  C6. The constructor of \<open>ChannelScaler\<close> raises the invalid-configuration error
  (\<open>KeyError\<close>) exactly for the mode strings that do not differ only in case from
  \<open>channel\<close> or \<open>dim\<close>; the error is the constructor's own result, so no scaler exists
  on which \<open>fit\<close> could be called. Every mode string that differs only in case from one of
  the two is accepted, and the scaler stores the lowered name with the matching axes.
\<close>

theorem ChannelScaler_init_mode:
  "(\<not> (differ_only_in_case m ''channel'' \<or> differ_only_in_case m ''dim'') \<longrightarrow>
      ChannelScaler_init m = Inl (KeyError ''Unsupported normalization method''))
   \<and> (differ_only_in_case m ''channel'' \<longrightarrow>
      ChannelScaler_init m = Inr \<lparr> channel_mean = None, channel_std = None,
        norm_method = ''channel'', norm_axis = Some Axes02 \<rparr>)
   \<and> (differ_only_in_case m ''dim'' \<longrightarrow>
      ChannelScaler_init m = Inr \<lparr> channel_mean = None, channel_std = None,
        norm_method = ''dim'', norm_axis = Some Axis0 \<rparr>)"
  unfolding lower_channel [symmetric] lower_dim [symmetric]
  by (simp add: ChannelScaler_init_def Let_def)

theorem ChannelScaler_init_mode_witness:
  "ChannelScaler_init ''bogus'' = Inl (KeyError ''Unsupported normalization method'')
   \<and> ChannelScaler_init ''ChaNNel'' = Inr \<lparr> channel_mean = None, channel_std = None,
        norm_method = ''channel'', norm_axis = Some Axes02 \<rparr>
   \<and> ChannelScaler_init ''DIM'' = Inr \<lparr> channel_mean = None, channel_std = None,
        norm_method = ''dim'', norm_axis = Some Axis0 \<rparr>"
proof -
  have a: "\<not> (differ_only_in_case ''bogus'' ''channel'' \<or> differ_only_in_case ''bogus'' ''dim'')"
    by (simp add: differ_only_in_case_def)
  have b: "differ_only_in_case ''ChaNNel'' ''channel''"
    by (simp add: differ_only_in_case_def same_letter_def is_upper_def)
  have c: "differ_only_in_case ''DIM'' ''dim''"
    by (simp add: differ_only_in_case_def same_letter_def is_upper_def)
  show ?thesis
    using a b c ChannelScaler_init_mode [of "''bogus''"]
      ChannelScaler_init_mode [of "''ChaNNel''"] ChannelScaler_init_mode [of "''DIM''"]
    by blast
qed

subsection \<open>Integers divided as floats\<close>

lemma trunc_quot_floor:
  assumes "0 \<le> a"
  shows "trunc_quot a 5 = \<lfloor>real_of_int a / 5\<rfloor>"
proof -
  have "\<lfloor>real_of_int a / 5\<rfloor> = a div 5"
    by (metis floor_divide_of_int_eq of_int_numeral)
  moreover have "trunc_quot a 5 = a div 5"
    using assms by (cases "a = 0") (simp_all add: trunc_quot_def)
  ultimately show ?thesis by simp
qed

lemma int_truediv_by_5:
  assumes "0 \<le> a" and "a < 2 ^ 53"
  shows "int_truediv a 5 = Inr \<lfloor>real_of_int a / 5\<rfloor>"
  using assms trunc_quot_floor [OF assms(1)] by (simp add: int_truediv_def)

text \<open>
  From \<open>2^53\<close> on the double decides: \<open>2^53 + 1\<close> is not a double, it lies half-way
  between two and goes to the even one.
\<close>

lemma int_truediv_rounds: "int_truediv (2 ^ 53 + 1) 1 = Inr (2 ^ 53)"
  by code_simp

subsection \<open>FeatExtractor\<close>

text \<open>
  What the constructor asks of \<open>firwin\<close>: without an explicit order, \<open>n + 1\<close> taps with
  \<open>n\<close> the sampling frequency divided by five and rounded down; a low-pass design for a
  band of one value, a band-pass design for a band of two. The call hands the taps, the
  denominator 1 and the data to \<open>filtfilt\<close> and returns its result as it is.
\<close>

lemma FeatExtractor_init_design:
  assumes "0 \<le> sfreq_arg" and "sfreq_arg < 2 ^ 53"
  shows "FeatExtractor_init firwin sfreq_arg (Some [f]) None
           = then_do (firwin (\<lfloor>real_of_int sfreq_arg / 5\<rfloor> + 1) [f] sfreq_arg True)
               (\<lambda>b. Inr \<lparr> priv_band_erp = [f], sfreq = sfreq_arg, filter_erp = (b, 1) \<rparr>)"
    and "FeatExtractor_init firwin sfreq_arg (Some [f1, f2]) None
           = then_do (firwin (\<lfloor>real_of_int sfreq_arg / 5\<rfloor> + 1) [f1, f2] sfreq_arg False)
               (\<lambda>b. Inr \<lparr> priv_band_erp = [f1, f2], sfreq = sfreq_arg, filter_erp = (b, 1) \<rparr>)"
  using int_truediv_by_5 [OF assms]
  by (simp_all add: FeatExtractor_init_def then_do_def)

lemma FeatExtractor_call_filtfilt:
  assumes "FeatExtractor_init firwin sfreq_arg band n = Inr fe"
  shows "\<exists>b. filter_erp fe = (b, 1) \<and> FeatExtractor_call filtfilt fe data = filtfilt b 1 data"
  using assms
  by (auto simp: FeatExtractor_init_def FeatExtractor_call_def then_do_def
      split: option.splits sum.splits if_splits)

text \<open>
  C8. Without the band parameter the constructor of \<open>FeatExtractor\<close> fails at once, with
  the assertion error, whatever the other arguments are; and whenever the constructor
  returns an extractor, a band was given.
\<close>

theorem FeatExtractor_requires_band:
  "FeatExtractor_init firwin sfreq_arg None n = Inl AssertionError
   \<and> (\<forall>fe. FeatExtractor_init firwin sfreq_arg band n = Inr fe \<longrightarrow> band \<noteq> None)"
  by (cases band) (simp_all add: FeatExtractor_init_def)

theorem FeatExtractor_requires_band_witness:
  "FeatExtractor_init example_firwin 250 None (Some 2) = Inl AssertionError
   \<and> FeatExtractor_init example_firwin 250 (Some [8]) (Some 2)
       = Inr \<lparr> priv_band_erp = [8], sfreq = 250, filter_erp = ([1, 1, 1], 1) \<rparr>
   \<and> Some [8 :: real] \<noteq> None"
proof -
  have "FeatExtractor_init example_firwin 250 (Some [8]) (Some 2)
       = Inr \<lparr> priv_band_erp = [8], sfreq = 250, filter_erp = ([1, 1, 1], 1) \<rparr>"
    by (simp add: FeatExtractor_init_def then_do_def example_firwin_def numeral_3_eq_3)
  then show ?thesis
    using FeatExtractor_requires_band
      [where firwin = example_firwin and sfreq_arg = 250 and n = "Some 2" and band = "Some [8]"]
    by (simp add: FeatExtractor_init_def)
qed

subsection \<open>Model.raw2epoch\<close>

text \<open>
  With the recording type \<open>eeg\<close> the helpers run in the order cut, sort, detrend,
  baseline, window, each on the result of the one before; the last step keeps every
  \<open>k\<close>-th sample, \<open>k\<close> being the truncated ratio of the two rates, and leaves the number
  of epochs and of channels as the windowing step returned them.
\<close>

lemma raw2epoch_eeg_steps:
  assumes "subj_type cfg = ''eeg''"
    and "cut_epochs utils (off_start cfg, off_end cfg, samplerate cfg) raw_data timestamps = Inr e1"
    and "sort_epochs utils e1 events = Inr e2"
    and "detrend utils e2 = Inr e3"
    and "apply_baseline utils (off_start cfg, off_end cfg, samplerate cfg) e3 = Inr e4"
    and "timewindow utils (off_start cfg, off_end cfg) (time_window cfg) e4 = Inr e5"
    and "int_truediv (samplerate cfg) (downsamp cfg) = Inr k"
    and "0 < k"
  shows "\<exists>Y. raw2epoch utils cfg raw_data timestamps events = Inr Y
           \<and> dim0 Y = dim0 e5 \<and> dim1 Y = dim1 e5
           \<and> (\<forall>e c t. elems Y e c t = elems e5 e c (t * nat k))"
  using assms
  by (simp add: raw2epoch_def then_do_def slice_last_def dim0_def dim1_def)

text \<open>
  C7. For every configured recording type other than \<open>eeg\<close>, \<open>raw2epoch\<close> raises the
  unsupported-type error (\<open>KeyError\<close>) and returns no epoch array, whatever the
  recording, the timestamps, the events and the helpers are.
\<close>

theorem raw2epoch_unsupported_type:
  "subj_type cfg \<noteq> ''eeg'' \<Longrightarrow>
     raw2epoch utils cfg raw_data timestamps events
       = Inl (KeyError ''Unsupported recording type.'')"
  by (simp add: raw2epoch_def then_do_def)

theorem raw2epoch_unsupported_type_witness:
  "subj_type (example_config ''ecog'') \<noteq> ''eeg''
   \<and> raw2epoch example_helpers (example_config ''ecog'') () () ()
       = Inl (KeyError ''Unsupported recording type.'')"
proof -
  have h: "subj_type (example_config ''ecog'') \<noteq> ''eeg''"
    by (simp add: example_config_def)
  show ?thesis
    using h raw2epoch_unsupported_type [OF h, of example_helpers "()" "()" "()"]
    by simp
qed

subsection \<open>ChannelScaler.transform\<close>

lemma ChannelScaler_transform_appends:
  assumes "xa < length h"
  shows "\<exists>r x'. ChannelScaler_transform np sc h xa = (r, h @ [x'])"
  using assms
  by (auto simp: ChannelScaler_transform_def deref_def alloc_def inplace_at_def nth_append
      split: option.splits sum.splits)

lemma ChannelScaler_transform_float:
  assumes "channel_mean sc = Some ma" and "channel_std sc = Some sa"
    and "ma < length h" and "sa < length h" and "xa < length h"
    and "dtype (h ! xa) = Float64"
    and "broadcastable_to (dims (h ! ma)) (dims (h ! xa))"
    and "broadcastable_to (dims (h ! sa)) (dims (h ! xa))"
  shows "ChannelScaler_transform np sc h xa =
           (Inr (length h),
            h @ [\<lparr> dtype = Float64, dims = dims (h ! xa),
                   elems = (\<lambda>e c t. np_true_divide np
                              (np_subtract np (elems (h ! xa) e c t) (bget (h ! ma) e c t))
                              (bget (h ! sa) e c t)) \<rparr>])"
  using assms
  by (simp add: ChannelScaler_transform_def deref_def alloc_def inplace_at_def isub_def
      itruediv_def nth_append)

lemma broadcasts_to_shape_iff:
  "broadcasts_to_shape M X \<longleftrightarrow> broadcastable_to (dims M) (dims X)"
  by (auto simp: broadcasts_to_shape_def broadcastable_to_def dim0_def dim1_def dim2_def)

lemma bidx_within:
  assumes "m = x \<or> m = 1" and "i < x"
  shows "bidx m i = (if m = x then i else 0)"
  using assms by (auto simp: bidx_def)

lemma bget_stat_at:
  assumes "broadcasts_to_shape M X" and "e < dim0 X" and "c < dim1 X" and "t < dim2 X"
  shows "bget M e c t = stat_at M X e c t"
proof -
  have "dim0 M = dim0 X \<or> dim0 M = 1" "dim1 M = dim1 X \<or> dim1 M = 1"
    "dim2 M = dim2 X \<or> dim2 M = 1"
    using assms(1) by (simp_all add: broadcasts_to_shape_def)
  then show ?thesis
    using assms(2-4) by (simp only: bget_def stat_at_def bidx_within)
qed

text \<open>
  C9, for the arrays on which the in-place operations are defined. Let the scaler hold
  references to a mean and a standard deviation. For every array \<open>X\<close>, of either
  element type and of any shape, \<open>transform\<close> leaves every array that existed before the
  call as it was, in particular \<open>X\<close>, the stored mean and the stored standard deviation
  (and it returns no changed scaler: it assigns no field). For every floating-point \<open>X\<close>
  to whose shape the two statistics broadcast, the result is a reference to a new
  array of the shape of \<open>X\<close>, and its entry at every index of \<open>X\<close> is the entry of
  \<open>X\<close> minus the mean that belongs to it, divided by the standard deviation that
  belongs to it: \<open>(X - mean) / std\<close>, in NumPy's own subtraction and division.
\<close>

theorem transform_on_copy:
  assumes "channel_mean sc = Some ma" and "channel_std sc = Some sa"
    and "ma < length h" and "sa < length h" and "xa < length h"
  shows "\<exists>r h'. ChannelScaler_transform np sc h xa = (r, h')
           \<and> (\<forall>a<length h. h' ! a = h ! a)
           \<and> h' ! xa = h ! xa \<and> h' ! ma = h ! ma \<and> h' ! sa = h ! sa
           \<and> (dtype (h ! xa) = Float64 \<and> broadcasts_to_shape (h ! ma) (h ! xa)
                \<and> broadcasts_to_shape (h ! sa) (h ! xa) \<longrightarrow>
                r = Inr (length h) \<and> length h' = length h + 1
                \<and> dtype (h' ! length h) = Float64 \<and> dims (h' ! length h) = dims (h ! xa)
                \<and> (\<forall>e<dim0 (h ! xa). \<forall>c<dim1 (h ! xa). \<forall>t<dim2 (h ! xa).
                      elems (h' ! length h) e c t
                        = np_true_divide np
                            (np_subtract np (elems (h ! xa) e c t) (stat_at (h ! ma) (h ! xa) e c t))
                            (stat_at (h ! sa) (h ! xa) e c t)))"
proof -
  obtain r x' where res: "ChannelScaler_transform np sc h xa = (r, h @ [x'])"
    using ChannelScaler_transform_appends [OF assms(5)] by blast
  have frame: "\<forall>a<length h. (h @ [x']) ! a = h ! a"
    by (simp add: nth_append)
  have val: "r = Inr (length h) \<and> length (h @ [x']) = length h + 1
        \<and> dtype ((h @ [x']) ! length h) = Float64
        \<and> dims ((h @ [x']) ! length h) = dims (h ! xa)
        \<and> (\<forall>e<dim0 (h ! xa). \<forall>c<dim1 (h ! xa). \<forall>t<dim2 (h ! xa).
              elems ((h @ [x']) ! length h) e c t
                = np_true_divide np
                    (np_subtract np (elems (h ! xa) e c t) (stat_at (h ! ma) (h ! xa) e c t))
                    (stat_at (h ! sa) (h ! xa) e c t))"
    if fl: "dtype (h ! xa) = Float64" and bm: "broadcasts_to_shape (h ! ma) (h ! xa)"
      and bs: "broadcasts_to_shape (h ! sa) (h ! xa)"
  proof -
    note eq = ChannelScaler_transform_float [OF assms fl
        bm [unfolded broadcasts_to_shape_iff] bs [unfolded broadcasts_to_shape_iff], of np]
    from eq res have r: "r = Inr (length h)"
      and x': "x' = \<lparr> dtype = Float64, dims = dims (h ! xa),
                   elems = (\<lambda>e c t. np_true_divide np
                              (np_subtract np (elems (h ! xa) e c t) (bget (h ! ma) e c t))
                              (bget (h ! sa) e c t)) \<rparr>"
      by simp_all
    show ?thesis
      using r by (simp add: x' bget_stat_at [OF bm] bget_stat_at [OF bs])
  qed
  show ?thesis
    using res frame val assms(3-5) by (auto simp: nth_append)
qed

theorem transform_on_copy_witness:
  "channel_mean (fitted_scaler 1 2) = Some 1 \<and> channel_std (fitted_scaler 1 2) = Some 2
   \<and> dtype two_epochs = Float64
   \<and> broadcasts_to_shape stats_per_time two_epochs
   \<and> broadcasts_to_shape single_stat two_epochs
   \<and> (\<exists>r h'. ChannelScaler_transform example_numpy (fitted_scaler 1 2)
                 [two_epochs, stats_per_time, single_stat] 0 = (r, h')
         \<and> h' ! 0 = two_epochs \<and> h' ! 1 = stats_per_time \<and> h' ! 2 = single_stat
         \<and> r = Inr 3
         \<and> dims (h' ! 3) = (2, 1, 2)
         \<and> elems (h' ! 3) 0 0 0 = 2 \<and> elems (h' ! 3) 0 0 1 = 3
         \<and> elems (h' ! 3) 1 0 0 = 1 / 2 \<and> elems (h' ! 3) 1 0 1 = 2)"
proof -
  let ?h = "[two_epochs, stats_per_time, single_stat]"
  have a: "channel_mean (fitted_scaler 1 2) = Some 1"
    and b: "channel_std (fitted_scaler 1 2) = Some 2"
    by (simp_all add: fitted_scaler_def)
  have c: "1 < length ?h" and d: "2 < length ?h" and e: "0 < length ?h"
    by simp_all
  have fl: "dtype two_epochs = Float64"
    by (simp add: two_epochs_def)
  have bm: "broadcasts_to_shape stats_per_time two_epochs"
    by (simp add: broadcasts_to_shape_def stats_per_time_def two_epochs_def dim0_def dim1_def
        dim2_def)
  have bs: "broadcasts_to_shape single_stat two_epochs"
    by (simp add: broadcasts_to_shape_def single_stat_def two_epochs_def dim0_def dim1_def
        dim2_def)
  have d0: "dim0 two_epochs = 2" and d1: "dim1 two_epochs = 1" and d2: "dim2 two_epochs = 2"
    and dm: "dims two_epochs = (2, 1, 2)"
    by (simp_all add: two_epochs_def dim0_def dim1_def dim2_def)
  have v: "np_true_divide example_numpy
             (np_subtract example_numpy (elems two_epochs 0 0 0) (stat_at stats_per_time two_epochs 0 0 0))
             (stat_at single_stat two_epochs 0 0 0) = 2"
    "np_true_divide example_numpy
             (np_subtract example_numpy (elems two_epochs 0 0 1) (stat_at stats_per_time two_epochs 0 0 1))
             (stat_at single_stat two_epochs 0 0 1) = 3"
    "np_true_divide example_numpy
             (np_subtract example_numpy (elems two_epochs 1 0 0) (stat_at stats_per_time two_epochs 1 0 0))
             (stat_at single_stat two_epochs 1 0 0) = 1 / 2"
    "np_true_divide example_numpy
             (np_subtract example_numpy (elems two_epochs 1 0 1) (stat_at stats_per_time two_epochs 1 0 1))
             (stat_at single_stat two_epochs 1 0 1) = 2"
    by (simp_all add: example_numpy_def two_epochs_def stats_per_time_def single_stat_def
        stat_at_def dim0_def dim1_def dim2_def)
  obtain r h' where res:
    "ChannelScaler_transform example_numpy (fitted_scaler 1 2) ?h 0 = (r, h')"
    "h' ! 0 = ?h ! 0" "h' ! 1 = ?h ! 1" "h' ! 2 = ?h ! 2"
    "r = Inr (length ?h)" "dims (h' ! length ?h) = dims (?h ! 0)"
    "\<forall>e<dim0 (?h ! 0). \<forall>c<dim1 (?h ! 0). \<forall>t<dim2 (?h ! 0).
        elems (h' ! length ?h) e c t
          = np_true_divide example_numpy
              (np_subtract example_numpy (elems (?h ! 0) e c t) (stat_at (?h ! 1) (?h ! 0) e c t))
              (stat_at (?h ! 2) (?h ! 0) e c t)"
    using transform_on_copy [OF a b c d e, of example_numpy] fl bm bs by auto
  have l3: "length ?h = 3"
    by simp
  have el: "elems (h' ! 3) e c t
          = np_true_divide example_numpy
              (np_subtract example_numpy (elems two_epochs e c t) (stat_at stats_per_time two_epochs e c t))
              (stat_at single_stat two_epochs e c t)"
    if "e < 2" and "c < 1" and "t < 2" for e c t
    using res(7) that by (simp add: d0 d1 d2 numeral_3_eq_3)
  have "elems (h' ! 3) 0 0 0 = 2" "elems (h' ! 3) 0 0 1 = 3"
    "elems (h' ! 3) 1 0 0 = 1 / 2" "elems (h' ! 3) 1 0 1 = 2"
    using v by (simp_all add: el)
  moreover have "h' ! 0 = two_epochs" "h' ! 1 = stats_per_time" "h' ! 2 = single_stat"
    "r = Inr 3" "dims (h' ! 3) = (2, 1, 2)"
    using res(2-6) dm by (simp_all add: numeral_3_eq_3)
  ultimately show ?thesis
    using a b fl bm bs res(1) by blast
qed

text \<open>
  A scaler fitted on two channels holds statistics of the shape \<open>(1, 2, 1)\<close>. They
  broadcast neither to an array of one channel, although \<open>X - mean\<close> is defined for it
  (with two channels), nor to one of three: the update in place raises \<open>ValueError\<close>.
  For an integer array of two channels the difference is floating-point and cannot be
  written back: \<open>UFuncTypeError\<close>.
\<close>

theorem transform_shape_dtype_counterexample:
  "fst (ChannelScaler_fit example_numpy (example_scaler ''channel'' Axes02)
          [two_channels, one_channel, three_channels, integer_epochs] 0)
     = Inr (fitted_scaler 4 5)
   \<and> fst (ChannelScaler_transform example_numpy (fitted_scaler 4 5)
            (snd (ChannelScaler_fit example_numpy (example_scaler ''channel'' Axes02)
                    [two_channels, one_channel, three_channels, integer_epochs] 0)) 1)
       = Inl ValueError
   \<and> fst (ChannelScaler_transform example_numpy (fitted_scaler 4 5)
            (snd (ChannelScaler_fit example_numpy (example_scaler ''channel'' Axes02)
                    [two_channels, one_channel, three_channels, integer_epochs] 0)) 2)
       = Inl ValueError
   \<and> fst (ChannelScaler_transform example_numpy (fitted_scaler 4 5)
            (snd (ChannelScaler_fit example_numpy (example_scaler ''channel'' Axes02)
                    [two_channels, one_channel, three_channels, integer_epochs] 0)) 3)
       = Inl UFuncTypeError"
  by (simp add: ChannelScaler_fit_def ChannelScaler_transform_def example_scaler_def
      fitted_scaler_def deref_def alloc_def inplace_at_def isub_def itruediv_def np_mean_def
      np_std_def reduced_dims_def broadcastable_to_def two_channels_def one_channel_def
      three_channels_def integer_epochs_def dim1_def dim2_def numeral_3_eq_3)

subsection \<open>Model: the channel index property\<close>

text \<open>
  Whatever the coefficient store is, the setter sorts the caller's array where it lies,
  allocates nothing, and makes the private index set the caller's reference: the
  property reads back that reference, and the array behind it is in ascending order and
  a permutation of what was assigned. With a dictionary as the coefficient store (train
  mode) it completes, and the entry \<open>ind_ch_scores\<close> is the same reference, so that the
  store reads whatever the caller's array holds, then and later.
\<close>

lemma ch_ind_setter_any_store:
  assumes "val < length h"
  shows "\<exists>err m'. ch_ind_setter m h val = (err, m', h[val := sort (h ! val)])
           \<and> ch_ind m' = Inr val
           \<and> sorted (h[val := sort (h ! val)] ! val)
           \<and> mset (h[val := sort (h ! val)] ! val) = mset (h ! val)"
  using assms
  by (cases "data_dict m") (simp_all add: ch_ind_setter_def deref_def Let_def ch_ind_def)

lemma ch_ind_setter_dict:
  assumes "data_dict m = Dict kv" and "val < length h"
  shows "\<exists>m' kv'. ch_ind_setter m h val = (None, m', h[val := sort (h ! val)])
           \<and> priv_ch_ind m' = Some val
           \<and> data_dict m' = Dict kv' \<and> map_of kv' ''ind_ch_scores'' = Some val
           \<and> store_get (data_dict m') (h[val := sort (h ! val)]) ''ind_ch_scores''
               = Inr (sort (h ! val))
           \<and> (\<forall>w. store_get (data_dict m') (h[val := w]) ''ind_ch_scores'' = Inr w)"
  using assms
  by (simp add: ch_ind_setter_def deref_def Let_def store_get_def update_conv')

text \<open>
  C5. In test mode the coefficient store is the loaded archive, and the assignment does
  not keep the two views consistent. The model below is the one that the constructor
  builds from a session directory whose archive holds \<open>[5]\<close>; assigning the array
  \<open>[3, 1, 2]\<close> sorts it and stores it as the index set, then the write into the archive
  raises \<open>TypeError\<close>: the property reads back \<open>[1, 2, 3]\<close>, the entry
  \<open>ind_ch_scores\<close> of the coefficient store still reads \<open>[5]\<close>.
\<close>

theorem ch_ind_assignment_test_mode:
  "Model_init example_env example_session_fs [[3, 1, 2]] (Some ''s1'') (Some (DateStr ''d1''))
      ''test'' None None
     = Inr (example_test_model, [[3, 1, 2], [5]])
   \<and> ch_ind_setter example_test_model [[3, 1, 2], [5]] 0
     = (Some TypeError, example_test_model\<lparr> priv_ch_ind := Some 0 \<rparr>, [[1, 2, 3], [5]])
   \<and> ch_ind (example_test_model\<lparr> priv_ch_ind := Some 0 \<rparr>) = Inr 0
   \<and> store_get (data_dict (example_test_model\<lparr> priv_ch_ind := Some 0 \<rparr>)) [[1, 2, 3], [5]]
        ''ind_ch_scores'' = Inr [5]"
  by (simp add: Model_init_def example_env_def example_session_fs_def example_test_model_def
      lower_test Let_def path_join_def np_load_def joblib_load_def store_get_def alloc_def
      ch_ind_setter_def deref_def ch_ind_def)

text \<open>
  C10. In test mode the setter sorts the caller's array \<open>[2, 1]\<close> in place and stores
  its reference as the index set, then raises \<open>TypeError\<close>: the coefficient store is
  the unchanged archive, its entry is not the caller's array, and a later write into
  the caller's array does not reach it.
\<close>

theorem ch_ind_setter_test_mode:
  "Model_init example_env example_session_fs [[2, 1]] None None ''TEST'' None None
     = Inr (example_test_model, [[2, 1], [5]])
   \<and> ch_ind_setter example_test_model [[2, 1], [5]] 0
     = (Some TypeError, example_test_model\<lparr> priv_ch_ind := Some 0 \<rparr>, [[1, 2], [5]])
   \<and> data_dict (example_test_model\<lparr> priv_ch_ind := Some 0 \<rparr>)
       = NpzFile [(''ind_ch_scores'', [5])]
   \<and> store_get (data_dict (example_test_model\<lparr> priv_ch_ind := Some 0 \<rparr>))
        ([[1, 2], [5]][0 := [7, 8]]) ''ind_ch_scores'' = Inr [5]"
proof -
  have "py_lower ''TEST'' = ''test''"
    by code_simp
  then show ?thesis
    by (simp add: Model_init_def example_env_def example_session_fs_def example_test_model_def
        Let_def path_join_def np_load_def joblib_load_def store_get_def alloc_def
        ch_ind_setter_def deref_def)
qed

subsection \<open>Model: dump and the test-mode constructor\<close>

lemma join_names_differ: "path_join x ''coef.npz'' \<noteq> path_join x ''model.pkl''"
  by (simp add: path_join_def)

lemma store_items_lookup:
  assumes "map_of kv k = Some a"
  shows "map_of (store_items (Dict kv) h) k = Some (h ! a)"
  using assms by (simp add: store_items_def map_of_map)

lemma Model_dump_files:
  assumes "data_dict m = Dict kv" and "kv \<noteq> []" and "priv_cls m = Some p"
    and "fst (Model_dump env m h fs) = None"
  shows "files (snd (Model_dump env m h fs)) (path_join (session_dir m) ''coef.npz'')
           = Some (Npz (store_items (Dict kv) h))
         \<and> files (snd (Model_dump env m h fs)) (path_join (session_dir m) ''model.pkl'')
           = Some (Pkl (joblib_dumps env p))"
proof (cases "is_dir fs (session_dir m)")
  case True
  then show ?thesis
    using assms join_names_differ [of "session_dir m"]
    by (simp add: Model_dump_def store_nonempty_def write_file_def)
next
  case False
  then have "fst (Model_dump env m h fs) \<noteq> None"
    using assms by (simp add: Model_dump_def store_nonempty_def write_file_def)
  then show ?thesis
    using assms by simp
qed

text \<open>
  C1, for a model whose coefficient store holds the channel index set. Let a train-mode
  model of subject \<open>subj\<close> and session \<open>d\<close> hold a pipeline \<open>p\<close> and the entry
  \<open>ind_ch_scores\<close>, a reference to an array, in its coefficient store, let \<open>dump\<close>
  complete, and let \<open>joblib\<close> restore \<open>p\<close> from the bytes it writes for \<open>p\<close>. Then
  constructing a model in test mode for the same subject and session succeeds, in any
  store of arrays. It holds the pipeline \<open>p\<close>; its coefficient store is the archive of
  the original store, every key with the array that the original store referred to; its
  index set is a new array with the archived values, and the entry \<open>ind_ch_scores\<close>
  reads as it did in the original; and its \<open>decision_function\<close> returns on every input
  what the original returns.
\<close>

theorem dump_then_test_roundtrip:
  assumes "priv_subj_path m = module_dir env @ ''/../data/'' @ subj"
    and "priv_date m = d"
    and "data_dict m = Dict kv"
    and "map_of kv ''ind_ch_scores'' = Some a"
    and "priv_cls m = Some p"
    and "fst (Model_dump env m h fs) = None"
    and "a < length h"
    and "joblib_loads env (joblib_dumps env p) = Inr p"
  shows "\<exists>m2. Model_init env (snd (Model_dump env m h fs)) h2 (Some subj) (Some (DateStr d))
                ''test'' kw_C kw_n
             = Inr (m2, h2 @ [h ! a])
           \<and> priv_cls m2 = Some p
           \<and> data_dict m2 = NpzFile (store_items (data_dict m) h)
           \<and> ch_ind m2 = Inr (length h2)
           \<and> store_get (data_dict m2) (h2 @ [h ! a]) ''ind_ch_scores''
               = store_get (data_dict m) h ''ind_ch_scores''
           \<and> (\<forall>X. Model_decision_function env m2 X = Model_decision_function env m X)"
proof -
  have ne: "kv \<noteq> []"
    using assms(4) by auto
  have sd: "session_dir m = path_join (module_dir env @ ''/../data/'' @ subj) d"
    using assms(1,2) by (simp add: session_dir_def)
  note fl = Model_dump_files [OF assms(3) ne assms(5) assms(6), unfolded sd]
  show ?thesis
    using fl store_items_lookup [OF assms(4), of h] assms(3,4,5,7,8)
    by (simp add: Model_init_def Let_def lower_test np_load_def joblib_load_def
        store_get_def alloc_def ch_ind_def Model_decision_function_def deref_def)
qed

theorem dump_then_test_roundtrip_witness:
  "ch_ind_setter example_train_model [[3, 1, 2]] 0
     = (None, example_fitted_model\<lparr> priv_cls := Some 3 \<rparr>, [[1, 2, 3]])
   \<and> Model_fit example_env (example_fitted_model\<lparr> priv_cls := Some 3 \<rparr>) 2 1
     = Inr example_fitted_model
   \<and> fst (Model_dump example_env example_fitted_model [[1, 2, 3]] example_fs) = None
   \<and> joblib_loads example_env (joblib_dumps example_env 5) = Inr 5
   \<and> (\<exists>m2. Model_init example_env
              (snd (Model_dump example_env example_fitted_model [[1, 2, 3]] example_fs))
              [] (Some ''s1'') (Some (DateStr ''d1'')) ''test'' None None
            = Inr (m2, [[1, 2, 3]])
          \<and> priv_cls m2 = Some 5
          \<and> data_dict m2 = NpzFile [(''ind_ch_scores'', [1, 2, 3])]
          \<and> ch_ind m2 = Inr 0
          \<and> Model_decision_function example_env m2 7 = Inr 35
          \<and> (\<forall>X. Model_decision_function example_env m2 X
                 = Model_decision_function example_env example_fitted_model X))"
proof -
  have a: "priv_subj_path example_fitted_model = module_dir example_env @ ''/../data/'' @ ''s1''"
    by (simp add: example_fitted_model_def example_env_def)
  have b: "priv_date example_fitted_model = ''d1''"
    by (simp add: example_fitted_model_def)
  have c: "data_dict example_fitted_model = Dict [(''ind_ch_scores'', 0)]"
    by (simp add: example_fitted_model_def)
  have d: "map_of [(''ind_ch_scores'', 0::nat)] ''ind_ch_scores'' = Some 0"
    by simp
  have e: "priv_cls example_fitted_model = Some 5"
    by (simp add: example_fitted_model_def)
  have f: "fst (Model_dump example_env example_fitted_model [[1, 2, 3]] example_fs) = None"
    by (simp add: Model_dump_def example_fitted_model_def example_fs_def store_nonempty_def
        write_file_def)
  have g: "ch_ind_setter example_train_model [[3, 1, 2]] 0
     = (None, example_fitted_model\<lparr> priv_cls := Some 3 \<rparr>, [[1, 2, 3]])"
    by (simp add: ch_ind_setter_def deref_def example_train_model_def example_fitted_model_def)
  have h: "Model_fit example_env (example_fitted_model\<lparr> priv_cls := Some 3 \<rparr>) 2 1
     = Inr example_fitted_model"
    by (simp add: Model_fit_def example_fitted_model_def example_env_def)
  have i: "(0 :: nat) < length [[1, 2, 3 :: int]]"
    by simp
  have j: "joblib_loads example_env (joblib_dumps example_env 5) = Inr 5"
    by (simp add: example_env_def)
  have k: "store_items (data_dict example_fitted_model) [[1, 2, 3]]
             = [(''ind_ch_scores'', [1, 2, 3])]"
    by (simp add: example_fitted_model_def store_items_def)
  have l: "Model_decision_function example_env example_fitted_model 7 = Inr 35"
    by (simp add: Model_decision_function_def example_fitted_model_def example_env_def)
  show ?thesis
    using dump_then_test_roundtrip [OF a b c d e f i j, of "[]" None None] f g h j k l
    by (auto simp: ch_ind_def)
qed

text \<open>
  A model that is constructed in train mode, fitted and dumped without an assignment to
  \<open>ch_ind\<close> has an empty coefficient store: \<open>dump\<close> writes the pipeline only, and the
  test-mode constructor for the same subject and session fails on the missing archive.
\<close>

theorem dump_without_ch_ind_counterexample:
  "Model_init example_env example_fs [] (Some ''s1'') (Some (DateStr ''d1'')) ''train'' None None
     = Inr (example_train_model, [])
   \<and> Model_fit example_env example_train_model 2 1
     = Inr (example_train_model\<lparr> priv_cls := Some 5 \<rparr>)
   \<and> Model_dump example_env (example_train_model\<lparr> priv_cls := Some 5 \<rparr>) [] example_fs
     = (None, example_fs\<lparr> files := [''/app/Offline/../data/s1/d1/model.pkl'' \<mapsto> Pkl [128, 5]] \<rparr>)
   \<and> Model_init example_env
        (example_fs\<lparr> files := [''/app/Offline/../data/s1/d1/model.pkl'' \<mapsto> Pkl [128, 5]] \<rparr>)
        [] (Some ''s1'') (Some (DateStr ''d1'')) ''test'' None None
     = Inl (FileNotFoundError ''/app/Offline/../data/s1/d1/coef.npz'')"
  by (simp add: Model_init_def Model_fit_def Model_dump_def example_env_def example_fs_def
      example_train_model_def lower_train lower_test Let_def store_nonempty_def write_file_def
      session_dir_def path_join_def np_load_def)

end
